theory Spec2Isabelle
  imports Complex_Main
begin

section \<open>JavaScript values used by the screens\<close>

text \<open>
  A player stat is whatever the backend puts into \<open>player_stats\<close>: a number, a string
  or an array of strings. JavaScript numbers are compared with 75 and 25 only, and
  these comparisons are exact, so a finite number is modelled by the real it denotes;
  \<open>NaN\<close> is a value of its own (\<open>typeof NaN === "number"\<close>, every comparison with
  it is false).
\<close>

datatype stat_value = Num real | NaN | Str string | Seq "string list"

type_synonym stats = "(string \<times> stat_value) list"

text \<open>\<open>typeof value === "number"\<close>\<close>

fun is_number :: "stat_value \<Rightarrow> bool" where
  "is_number (Num _) = True"
| "is_number NaN = True"
| "is_number _ = False"

text \<open>\<open>value > bound\<close> on a value whose type is number.\<close>

fun num_gt :: "stat_value \<Rightarrow> real \<Rightarrow> bool" where
  "num_gt (Num v) b = (v > b)"
| "num_gt _ b = False"

text \<open>
  \<open>String.prototype.toLowerCase\<close>. A string is kept as the bytes of its UTF-8 form, so
  an ASCII character is one byte below 128 and every other character is a group of bytes
  from 128 on. The function maps character by character on a string of ASCII characters
  and Kelvin signs: \<open>A\<close>..\<open>Z\<close> (65..90) move to \<open>a\<close>..\<open>z\<close>, every other ASCII character
  stays, and the Kelvin sign U+212A (bytes E2 84 AA), the one character outside ASCII
  whose lower-case form is an ASCII letter, becomes \<open>k\<close>. What it makes of a string with
  any other character is fixed by the Unicode tables of the JavaScript engine, which are
  not part of the repository: that part is the parameter \<open>U\<close>.
\<close>

definition ascii_lower :: "char \<Rightarrow> char" where
  "ascii_lower c =
     (let n = (of_char c :: nat) in if 65 \<le> n \<and> n \<le> 90 then char_of (n + 32) else c)"

definition kelvin_sign :: string where
  "kelvin_sign = [CHR 0xE2, CHR 0x84, CHR 0xAA]"

text \<open>
  The lower-case form of a string of ASCII characters and Kelvin signs; \<open>None\<close> on a
  string with any other character.
\<close>

fun lower_ascii_kelvin :: "string \<Rightarrow> string option" where
  "lower_ascii_kelvin [] = Some []"
| "lower_ascii_kelvin (c # cs) =
     (if (of_char c :: nat) < 128 then
        map_option ((#) (ascii_lower c)) (lower_ascii_kelvin cs)
      else if take 3 (c # cs) = kelvin_sign then
        map_option ((#) CHR ''k'') (lower_ascii_kelvin (drop 2 cs))
      else None)"

definition toLowerCase :: "(string \<Rightarrow> string) \<Rightarrow> string \<Rightarrow> string" where
  "toLowerCase U s = (case lower_ascii_kelvin s of Some r \<Rightarrow> r | None \<Rightarrow> U s)"

section \<open>PlayerStats: the stat presentation mapping\<close>

text \<open>
  The five icons \<open>getStatIcon\<close> can return (lucide-react components, at size 16). Both
  functions call \<open>toLowerCase\<close> on the key and so take the engine's part \<open>U\<close> of it.
\<close>

datatype icon = Heart | Coins | Shield | Zap | User

definition getStatIcon :: "(string \<Rightarrow> string) \<Rightarrow> string \<Rightarrow> icon" where
  "getStatIcon U statKey =
     (let k = toLowerCase U statKey in
      if k = ''hp'' \<or> k = ''health'' then Heart
      else if k = ''gold'' \<or> k = ''coins'' then Coins
      else if k = ''defense'' \<or> k = ''armor'' then Shield
      else if k = ''strength'' \<or> k = ''attack'' then Zap
      else User)"

definition getStatColor :: "(string \<Rightarrow> string) \<Rightarrow> string \<Rightarrow> stat_value \<Rightarrow> string" where
  "getStatColor U key v =
     (let k = toLowerCase U key in
      if k = ''hp'' \<or> k = ''health'' then
        (if is_number v then
           (if num_gt v 75 then ''#4caf50''
            else if num_gt v 25 then ''#ff9800''
            else ''#f44336'')
         else ''#4caf50'')
      else if k = ''gold'' \<or> k = ''coins'' then ''#ffd700''
      else ''#e0c080'')"

text \<open>
  The spec's vocabulary for what the two functions return: the category of a key is its
  icon, the severity tier of a health value is its colour.
\<close>

datatype category = health | currency | defense | offense | generic

fun category_of_icon :: "icon \<Rightarrow> category" where
  "category_of_icon Heart = health"
| "category_of_icon Coins = currency"
| "category_of_icon Shield = defense"
| "category_of_icon Zap = offense"
| "category_of_icon User = generic"

definition category :: "(string \<Rightarrow> string) \<Rightarrow> string \<Rightarrow> category" where
  "category U key = category_of_icon (getStatIcon U key)"

datatype tier = nominal | caution | critical

definition tier_of_color :: "string \<Rightarrow> tier option" where
  "tier_of_color c =
     (if c = ''#4caf50'' then Some nominal
      else if c = ''#ff9800'' then Some caution
      else if c = ''#f44336'' then Some critical
      else None)"

section \<open>Values shared by the game screens\<close>

text \<open>A reading of the clock (\<open>new Date()\<close>), in milliseconds.\<close>

type_synonym time = nat

text \<open>The object held in \<open>gameState\<close>: \<open>{story, choices, stats}\<close>.\<close>

record game =
  story :: string
  choices :: "string list"
  stats :: stats

text \<open>
  An entry of the adventure log: \<open>{story, choice, timestamp}\<close>. The choice is
  \<open>gameState.choices[choiceIndex]\<close>, which is \<open>undefined\<close> (\<open>None\<close>) when the index
  is outside the array.
\<close>

record entry =
  entry_story :: string
  entry_choice :: "string option"
  entry_timestamp :: time

text \<open>\<open>xs[i]\<close> for an integral index: \<open>undefined\<close> outside \<open>0 .. xs.length - 1\<close>.\<close>

definition js_index :: "'a list \<Rightarrow> int \<Rightarrow> 'a option" where
  "js_index xs i = (if 0 \<le> i \<and> i < int (length xs) then Some (xs ! nat i) else None)"

text \<open>A string or \<open>undefined\<close> inside a template literal.\<close>

definition js_template :: "string option \<Rightarrow> string" where
  "js_template v = (case v of None \<Rightarrow> ''undefined'' | Some s \<Rightarrow> s)"

text \<open>Truthiness of a string that may be \<open>null\<close>: \<open>null\<close> and \<open>""\<close> are falsy.\<close>

definition truthy :: "string option \<Rightarrow> bool" where
  "truthy v = (case v of None \<Rightarrow> False | Some s \<Rightarrow> s \<noteq> [])"

text \<open>The only exception the screens can raise themselves: a property read on \<open>null\<close>.\<close>

datatype js_error = TypeError

subsection \<open>The backend, as the screens see it\<close>

text \<open>
  The body of a backend answer. \<open>story\<close>, \<open>choices\<close> and \<open>player_stats\<close> are present
  and well-typed, as the API describes them; \<open>session_id\<close>, \<open>message\<close> and
  \<open>player_action\<close> may be missing.
\<close>

record payload =
  success :: bool
  message :: "string option"
  session_id :: "string option"
  r_story :: string
  r_choices :: "string list"
  player_stats :: stats
  player_action :: "string option"

text \<open>
  What \<open>await axios.post(...)\<close> gives. \<open>Rejected m\<close>: the promise rejects (no
  connection, or a status outside 2xx), \<open>m\<close> being \<open>err.response?.data?.message\<close>.
  \<open>Resolved d\<close>: it resolves, \<open>d\<close> being \<open>response.data\<close> (\<open>None\<close> for an empty body).
\<close>

datatype 'a http = Rejected "string option" | Resolved "'a option"

text \<open>The requests a screen sends.\<close>

datatype request = StartGame string | MakeChoice string int

section \<open>The three GameScreen components\<close>

text \<open>
  The hooks of the three variants of \<open>GameScreen\<close>. The demo-only screen
  (SimpleGameScreen.jsx) has \<open>gameState\<close>, \<open>history\<close> and \<open>isLoading\<close>; the live
  screen adds \<open>error\<close> and \<open>sessionId\<close>; the screen with the demo fallback adds
  \<open>demoMode\<close>. All three, and App.js, name their functions \<open>startNewGame\<close> and
  \<open>makeChoice\<close>, so the names carry a prefix here: \<open>S_\<close> for the demo-only screen
  (SimpleGameScreen.jsx), \<open>G_\<close> for the live screen (src/unnamed/part_001), \<open>W_\<close> for
  the screen with the demo fallback (src/unnamed/part_003) and \<open>App_\<close> for App.js.
\<close>

record S_state =
  gameState :: "game option"
  history :: "entry list"
  isLoading :: bool

record G_state = S_state +
  error :: "string option"
  sessionId :: "string option"

record W_state = G_state +
  demoMode :: bool

subsection \<open>The screen with the demo fallback\<close>

definition W_demoData :: game where
  "W_demoData =
     \<lparr>story = ''You stand at the entrance of a dark, ancient dungeon. The Dungeon Master awaits your decision.'',
      choices = [''Enter the dungeon cautiously'',
                 ''Examine the entrance for traps'',
                 ''Call out to announce your presence''],
      stats = [(''name'', Str ''Adventurer''), (''health'', Num 100),
               (''gold'', Num 50), (''level'', Num 1)]\<rparr>"

text \<open>\<open>useState\<close> initial values.\<close>

definition W_init :: W_state where
  "W_init = \<lparr>gameState = None, history = [], isLoading = True,
             error = None, sessionId = None, demoMode = False\<rparr>"

text \<open>
  An async function runs in two steps: the part up to \<open>await\<close>, which returns the state
  it leaves and the request it sends, and the part after it, which gets the answer and
  the state current at that moment. The first part reads the hooks' values of the render
  the function belongs to, taken here to be the current state; nothing after an
  \<open>await\<close> reads a hook's value, it only calls setters. Writes to the console are left
  out.
\<close>

definition W_startNewGame_sync :: "W_state \<Rightarrow> W_state \<times> request" where
  "W_startNewGame_sync st =
     (st\<lparr>isLoading := True, error := None, demoMode := False\<rparr>, StartGame ''Adventurer'')"

text \<open>\<open>response.data && response.data.success\<close>\<close>

fun W_accepted :: "payload http \<Rightarrow> payload option" where
  "W_accepted (Resolved (Some d)) = (if success d then Some d else None)"
| "W_accepted (Resolved None) = None"
| "W_accepted (Rejected m) = None"

definition W_startNewGame_resume :: "W_state \<Rightarrow> payload http \<Rightarrow> W_state" where
  "W_startNewGame_resume st resp =
     (case W_accepted resp of
        Some d \<Rightarrow>
          st\<lparr>gameState := Some \<lparr>story = r_story d, choices = r_choices d, stats = player_stats d\<rparr>,
             sessionId := session_id d,
             history := [],
             isLoading := False\<rparr>
      | None \<Rightarrow>
          st\<lparr>demoMode := True,
             gameState := Some W_demoData,
             history := [],
             error := None,
             isLoading := False\<rparr>)"

definition W_startNewGame :: "W_state \<Rightarrow> payload http \<Rightarrow> W_state" where
  "W_startNewGame st resp = W_startNewGame_resume (fst (W_startNewGame_sync st)) resp"

definition W_makeChoice_sync ::
  "W_state \<Rightarrow> int \<Rightarrow> time \<Rightarrow> js_error + (W_state \<times> request option)" where
  \<open>W_makeChoice_sync st choiceIndex now =
     (if demoMode st then
        (case gameState st of
           None \<Rightarrow> Inl TypeError
         | Some g \<Rightarrow>
             Inr (st\<lparr>history := history st @
                        [\<lparr>entry_story = story g,
                          entry_choice = js_index (choices g) choiceIndex,
                          entry_timestamp = now\<rparr>],
                      gameState := Some
                        \<lparr>story = ''You chose: "'' @ js_template (js_index (choices g) choiceIndex) @
                                 ''"\<newline>\<newline>The adventure continues in demo mode...'',
                         choices = [''Continue exploring'',
                                    ''Check your surroundings'',
                                    ''Try something different''],
                         stats = stats g\<rparr>\<rparr>,
                  None))
      else
        (case sessionId st of
           None \<Rightarrow> Inr (st\<lparr>error := Some ''No active game session''\<rparr>, None)
         | Some sid \<Rightarrow>
             if sid = [] then Inr (st\<lparr>error := Some ''No active game session''\<rparr>, None)
             else
               Inr (st\<lparr>isLoading := True,
                        history :=
                          (case gameState st of
                             None \<Rightarrow> history st
                           | Some g \<Rightarrow> history st @
                               [\<lparr>entry_story = story g,
                                 entry_choice = js_index (choices g) choiceIndex,
                                 entry_timestamp = now\<rparr>])\<rparr>,
                    Some (MakeChoice sid choiceIndex))))\<close>

definition W_makeChoice_resume :: "W_state \<Rightarrow> payload http \<Rightarrow> W_state" where
  "W_makeChoice_resume st resp =
     (case W_accepted resp of
        Some d \<Rightarrow>
          st\<lparr>gameState := Some \<lparr>story = r_story d, choices = r_choices d, stats = player_stats d\<rparr>,
             error := None,
             isLoading := False\<rparr>
      | None \<Rightarrow>
          st\<lparr>error := Some ''Failed to process your choice. Please try again.'',
             isLoading := False\<rparr>)"

text \<open>
  A whole call of \<open>makeChoice\<close> with nothing in between: the part before the request
  and, when a request went out, the part after its answer.
\<close>

definition W_makeChoice :: "W_state \<Rightarrow> int \<Rightarrow> time \<Rightarrow> payload http \<Rightarrow> js_error + W_state" where
  "W_makeChoice st choiceIndex now resp =
     (case W_makeChoice_sync st choiceIndex now of
        Inl e \<Rightarrow> Inl e
      | Inr (st', None) \<Rightarrow> Inr st'
      | Inr (st', Some req) \<Rightarrow> Inr (W_makeChoice_resume st' resp))"

text \<open>
  The choices panel: one button per choice, \<open>onClick={() => makeChoice(index)}\<close>,
  \<open>disabled={isLoading}\<close>. A click on button \<open>i\<close> reaches \<open>makeChoice\<close> only when the
  button exists and is enabled.
\<close>

definition W_click_choice ::
  "W_state \<Rightarrow> nat \<Rightarrow> time \<Rightarrow> js_error + (W_state \<times> request option)" where
  "W_click_choice st i now =
     (case gameState st of
        None \<Rightarrow> Inr (st, None)
      | Some g \<Rightarrow>
          if i < length (choices g) \<and> \<not> isLoading st then W_makeChoice_sync st (int i) now
          else Inr (st, None))"

text \<open>
  The spec's mode, read off the hooks the way the screen renders them: the loading text
  while \<open>isLoading\<close>, the "(Demo Mode)" title under \<open>demoMode\<close>, a session otherwise.
\<close>

datatype mode = Uninitialized | Loading | Live | Demo | Error

definition W_mode :: "W_state \<Rightarrow> mode" where
  "W_mode st =
     (if isLoading st then Loading
      else if demoMode st then Demo
      else if truthy (sessionId st) then Live
      else if error st \<noteq> None then Error
      else Uninitialized)"






subsection \<open>The live screen\<close>

text \<open>\<open>err.response?.data?.message || fallback\<close> in a \<open>catch\<close> block.\<close>

fun G_error_message :: "payload http \<Rightarrow> string \<Rightarrow> string" where
  "G_error_message (Rejected (Some m)) fallback = (if m \<noteq> [] then m else fallback)"
| "G_error_message (Rejected None) fallback = fallback"
| "G_error_message (Resolved d) fallback = fallback"

text \<open>
  \<open>response.data.success\<close>: on an empty body the read raises a TypeError inside the
  \<open>try\<close>, which lands in the \<open>catch\<close> like a refusal.
\<close>

fun G_accepted :: "payload http \<Rightarrow> payload option" where
  "G_accepted (Resolved (Some d)) = (if success d then Some d else None)"
| "G_accepted (Resolved None) = None"
| "G_accepted (Rejected m) = None"

definition G_init :: G_state where
  "G_init = \<lparr>gameState = None, history = [], isLoading = True, error = None, sessionId = None\<rparr>"

definition G_startNewGame_sync :: "G_state \<Rightarrow> G_state \<times> request" where
  "G_startNewGame_sync st = (st\<lparr>isLoading := True, error := None\<rparr>, StartGame ''Adventurer'')"

definition G_startNewGame_resume :: "G_state \<Rightarrow> payload http \<Rightarrow> G_state" where
  "G_startNewGame_resume st resp =
     (case G_accepted resp of
        Some d \<Rightarrow>
          st\<lparr>gameState := Some \<lparr>story = r_story d, choices = r_choices d, stats = player_stats d\<rparr>,
             sessionId := session_id d,
             history := [],
             isLoading := False\<rparr>
      | None \<Rightarrow>
          st\<lparr>error := Some (G_error_message resp
                  ''Failed to connect to game server. Please check if the backend is running on port 5000.''),
             isLoading := False\<rparr>)"

definition G_startNewGame :: "G_state \<Rightarrow> payload http \<Rightarrow> G_state" where
  "G_startNewGame st resp = G_startNewGame_resume (fst (G_startNewGame_sync st)) resp"

definition G_makeChoice_sync :: "G_state \<Rightarrow> int \<Rightarrow> time \<Rightarrow> G_state \<times> request option" where
  "G_makeChoice_sync st choiceIndex now =
     (case sessionId st of
        None \<Rightarrow> (st\<lparr>error := Some ''No active game session''\<rparr>, None)
      | Some sid \<Rightarrow>
          if sid = [] then (st\<lparr>error := Some ''No active game session''\<rparr>, None)
          else
            (st\<lparr>isLoading := True,
                history :=
                  (case gameState st of
                     None \<Rightarrow> history st
                   | Some g \<Rightarrow> history st @
                       [\<lparr>entry_story = story g,
                         entry_choice = js_index (choices g) choiceIndex,
                         entry_timestamp = now\<rparr>])\<rparr>,
             Some (MakeChoice sid choiceIndex)))"

definition G_makeChoice_resume :: "G_state \<Rightarrow> payload http \<Rightarrow> G_state" where
  "G_makeChoice_resume st resp =
     (case G_accepted resp of
        Some d \<Rightarrow>
          st\<lparr>gameState := Some \<lparr>story = r_story d, choices = r_choices d, stats = player_stats d\<rparr>,
             error := None,
             isLoading := False\<rparr>
      | None \<Rightarrow>
          st\<lparr>error := Some (G_error_message resp ''Failed to process your choice. Please try again.''),
             isLoading := False\<rparr>)"

definition G_makeChoice :: "G_state \<Rightarrow> int \<Rightarrow> time \<Rightarrow> payload http \<Rightarrow> G_state" where
  "G_makeChoice st choiceIndex now resp =
     (case G_makeChoice_sync st choiceIndex now of
        (st', None) \<Rightarrow> st'
      | (st', Some req) \<Rightarrow> G_makeChoice_resume st' resp)"

definition G_mode :: "G_state \<Rightarrow> mode" where
  "G_mode st =
     (if isLoading st then Loading
      else if truthy (sessionId st) then Live
      else if error st \<noteq> None then Error
      else Uninitialized)"

subsection \<open>The demo-only screen\<close>

definition S_demoData :: game where
  \<open>S_demoData =
     \<lparr>story = ''You stand at the entrance of a dark, ancient dungeon. Shadows dance on the weathered stone walls, and a mystical energy fills the air. The Dungeon Master's eyes gleam with ancient wisdom as he presents your options.'',
      choices = [''Step forward into the mysterious corridor'',
                 ''Examine the ancient runes carved into the wall'',
                 ''Call out to see if anyone else is nearby''],
      stats = [(''name'', Str ''Brave Adventurer''), (''health'', Num 100), (''gold'', Num 25),
               (''level'', Num 1), (''experience'', Num 0)]\<rparr>\<close>

definition S_init :: S_state where
  "S_init = \<lparr>gameState = Some S_demoData, history = [], isLoading = False\<rparr>"

text \<open>\<open>obj[k]\<close> and \<open>{...obj, k: v}\<close> on an object kept as the list of its entries.\<close>

definition obj_get :: "stats \<Rightarrow> string \<Rightarrow> stat_value option" where
  "obj_get obj k = map_of obj k"

fun obj_set :: "stats \<Rightarrow> string \<Rightarrow> stat_value \<Rightarrow> stats" where
  "obj_set [] k v = [(k, v)]"
| "obj_set ((k', v') # kvs) k v =
     (if k' = k then (k, v) # kvs else (k', v') # obj_set kvs k v)"

text \<open>\<open>Array.prototype.join(",")\<close>, which is how an array turns into a string.\<close>

fun js_join :: "string list \<Rightarrow> string" where
  "js_join [] = []"
| "js_join [x] = x"
| "js_join (x # y # ys) = x @ '','' @ js_join (y # ys)"

text \<open>
  \<open>v + 10\<close>: a sum on numbers (exact here; the doubles agree for the integral values
  the screen reaches), \<open>NaN\<close> from \<open>undefined\<close>, a concatenation on strings and arrays.
\<close>

fun js_plus_10 :: "stat_value option \<Rightarrow> stat_value" where
  "js_plus_10 None = NaN"
| "js_plus_10 (Some (Num n)) = Num (n + 10)"
| "js_plus_10 (Some NaN) = NaN"
| "js_plus_10 (Some (Str s)) = Str (s @ ''10'')"
| "js_plus_10 (Some (Seq xs)) = Str (js_join xs @ ''10'')"

definition S_makeChoice :: "S_state \<Rightarrow> int \<Rightarrow> time \<Rightarrow> js_error + S_state" where
  \<open>S_makeChoice st choiceIndex now =
     (case gameState st of
        None \<Rightarrow> Inl TypeError
      | Some g \<Rightarrow>
          Inr (st\<lparr>history := history st @
                     [\<lparr>entry_story = story g,
                       entry_choice = js_index (choices g) choiceIndex,
                       entry_timestamp = now\<rparr>],
                   gameState := Some
                     \<lparr>story = ''You chose: "'' @ js_template (js_index (choices g) choiceIndex) @
                              ''"\<newline>\<newline>The dungeon seems to respond to your decision. New paths appear before you, each more mysterious than the last.'',
                      choices = [''Venture deeper into the shadows'',
                                 ''Search for hidden treasures'',
                                 ''Try to find a way back''],
                      stats = obj_set (stats g) ''experience''
                                (js_plus_10 (obj_get (stats g) ''experience''))\<rparr>\<rparr>))\<close>

definition S_startNewGame :: "S_state \<Rightarrow> S_state" where
  "S_startNewGame st = st\<lparr>gameState := Some S_demoData, history := []\<rparr>"

section \<open>App.js\<close>

text \<open>The three values of \<open>gameState\<close> in App.js ("welcome", "loading", "playing"), which
  names the page shown.\<close>

datatype page = Page_welcome | Page_loading | Page_playing

text \<open>
  The two kinds of item App.js puts into \<open>storyHistory\<close>:
  \<open>{type: "player", content, timestamp}\<close> and \<open>{type: "dm", content, choices, timestamp}\<close>.
\<close>

datatype story_item =
  Player_item "string option" time
| Dm_item string "string list" time

record App_state =
  app_gameState :: page
  app_sessionId :: "string option"
  currentStory :: string
  currentChoices :: "string list"
  playerStats :: "stats option"
  storyHistory :: "story_item list"
  app_isLoading :: bool

definition App_init :: App_state where
  "App_init = \<lparr>app_gameState = Page_welcome, app_sessionId = None, currentStory = [],
                currentChoices = [], playerStats = None, storyHistory = [],
                app_isLoading = False\<rparr>"

text \<open>
  \<open>gameApi\<close> (services/api) is a parameter: a call either returns the body of the
  answer or throws.
\<close>

datatype 'a api_result = Threw | Returned 'a

datatype toast = Toast_success string | Toast_error string

definition App_startNewGame_sync :: "App_state \<Rightarrow> string \<Rightarrow> App_state \<times> request" where
  "App_startNewGame_sync st playerName =
     (st\<lparr>app_isLoading := True, app_gameState := Page_loading\<rparr>, StartGame playerName)"

definition App_startNewGame_resume ::
  "App_state \<Rightarrow> string \<Rightarrow> payload api_result \<Rightarrow> App_state \<times> toast" where
  "App_startNewGame_resume st playerName res =
     (case res of
        Returned response \<Rightarrow>
          (st\<lparr>app_sessionId := session_id response,
              currentStory := r_story response,
              currentChoices := r_choices response,
              playerStats := Some (player_stats response),
              storyHistory := [],
              app_gameState := Page_playing,
              app_isLoading := False\<rparr>,
           Toast_success (''Welcome, '' @ playerName @ ''! Your adventure begins...''))
      | Threw \<Rightarrow>
          (st\<lparr>app_gameState := Page_welcome, app_isLoading := False\<rparr>,
           Toast_error ''Failed to start game. Please try again.''))"

definition App_startNewGame :: "App_state \<Rightarrow> string \<Rightarrow> payload api_result \<Rightarrow> App_state \<times> toast" where
  "App_startNewGame st playerName res =
     App_startNewGame_resume (fst (App_startNewGame_sync st playerName)) playerName res"

definition App_makeChoice_sync :: "App_state \<Rightarrow> int \<Rightarrow> App_state \<times> request option" where
  "App_makeChoice_sync st choiceIndex =
     (case app_sessionId st of
        None \<Rightarrow> (st, None)
      | Some sid \<Rightarrow>
          if sid = [] then (st, None)
          else (st\<lparr>app_isLoading := True\<rparr>, Some (MakeChoice sid choiceIndex)))"

text \<open>The two clock readings are the two \<open>new Date().toISOString()\<close> of the success branch.\<close>

definition App_makeChoice_resume ::
  "App_state \<Rightarrow> payload api_result \<Rightarrow> time \<Rightarrow> time \<Rightarrow> App_state \<times> toast" where
  "App_makeChoice_resume st res t1 t2 =
     (case res of
        Returned response \<Rightarrow>
          (st\<lparr>storyHistory := (storyHistory st @ [Player_item (player_action response) t1]) @
                              [Dm_item (r_story response) (r_choices response) t2],
              currentStory := r_story response,
              currentChoices := r_choices response,
              playerStats := Some (player_stats response),
              app_isLoading := False\<rparr>,
           Toast_success ''The adventure continues...'')
      | Threw \<Rightarrow>
          (st\<lparr>app_isLoading := False\<rparr>,
           Toast_error ''Failed to process your choice. Please try again.''))"

definition App_makeChoice ::
  "App_state \<Rightarrow> int \<Rightarrow> payload api_result \<Rightarrow> time \<Rightarrow> time \<Rightarrow> App_state \<times> toast option" where
  "App_makeChoice st choiceIndex res t1 t2 =
     (case App_makeChoice_sync st choiceIndex of
        (st', None) \<Rightarrow> (st', None)
      | (st', Some req) \<Rightarrow>
          (case App_makeChoice_resume st' res t1 t2 of (st'', t) \<Rightarrow> (st'', Some t)))"


section \<open>The adventure log panels\<close>

text \<open>
  The panels call \<open>history.slice(-k).reverse()\<close>, and \<open>reverse\<close> works in place. To see
  which array it overwrites, arrays live in a store: an address is a position in the
  list of all arrays, a new array goes to the end.
\<close>

type_synonym 'a arrays = "'a list list"

definition array_get :: "'a arrays \<Rightarrow> nat \<Rightarrow> 'a list option" where
  "array_get H a = (if a < length H then Some (H ! a) else None)"

text \<open>\<open>a.slice(start)\<close>: a new array with the elements from \<open>start\<close> on, a negative
  \<open>start\<close> counting from the end.\<close>

definition array_slice :: "nat \<Rightarrow> int \<Rightarrow> 'a arrays \<Rightarrow> (nat \<times> 'a arrays) option" where
  "array_slice a start H =
     (case array_get H a of
        None \<Rightarrow> None
      | Some xs \<Rightarrow>
          let n = int (length xs);
              k = (if start < 0 then max (n + start) 0 else min start n)
          in Some (length H, H @ [drop (nat k) xs]))"

text \<open>\<open>a.reverse()\<close>: reverses \<open>a\<close> itself and returns it.\<close>

definition array_reverse :: "nat \<Rightarrow> 'a arrays \<Rightarrow> (nat \<times> 'a arrays) option" where
  "array_reverse a H =
     (case array_get H a of
        None \<Rightarrow> None
      | Some xs \<Rightarrow> Some (a, H[a := rev xs]))"

text \<open>
  What a panel shows: the placeholder, or the list of entries from top to bottom together
  with the number in the line "... and n earlier entries" when the panel prints it.
\<close>

datatype 'a log_view = No_history | History_list "'a list" "nat option"

fun shown :: "'a log_view \<Rightarrow> 'a list" where
  "shown No_history = []"
| "shown (History_list es n) = es"

fun hidden_count :: "'a log_view \<Rightarrow> nat option" where
  "hidden_count No_history = None"
| "hidden_count (History_list es n) = n"

text \<open>HistoryPanel.jsx; \<open>hist\<close> is the address of the array passed as the prop
  \<open>history\<close>.\<close>

definition HistoryPanel :: "nat \<Rightarrow> 'a arrays \<Rightarrow> ('a log_view \<times> 'a arrays) option" where
  "HistoryPanel hist H =
     (case array_get H hist of
        None \<Rightarrow> None
      | Some h0 \<Rightarrow>
          if length h0 = 0 then Some (No_history, H)
          else
            (case array_slice hist (- 10) H of
               None \<Rightarrow> None
             | Some (s, H1) \<Rightarrow>
                 (case array_reverse s H1 of
                    None \<Rightarrow> None
                  | Some (r, H2) \<Rightarrow>
                      (case (array_get H2 r, array_get H2 hist) of
                         (Some es, Some h) \<Rightarrow>
                           Some (History_list es
                                   (if length h > 10 then Some (length h - 10) else None), H2)
                       | _ \<Rightarrow> None))))"

text \<open>The log written inline in the two screens that do not use HistoryPanel.\<close>

definition inline_log :: "nat \<Rightarrow> 'a arrays \<Rightarrow> ('a log_view \<times> 'a arrays) option" where
  "inline_log hist H =
     (case array_get H hist of
        None \<Rightarrow> None
      | Some h0 \<Rightarrow>
          if length h0 = 0 then Some (No_history, H)
          else
            (case array_slice hist (- 5) H of
               None \<Rightarrow> None
             | Some (s, H1) \<Rightarrow>
                 (case array_reverse s H1 of
                    None \<Rightarrow> None
                  | Some (r, H2) \<Rightarrow>
                      (case array_get H2 r of
                         Some es \<Rightarrow> Some (History_list es None, H2)
                       | None \<Rightarrow> None))))"

section \<open>The guarantee of a begin, and concrete sessions\<close>

text \<open>
  What a completed begin is meant to leave: live or demo mode, exactly three choices and
  a story that is not empty.
\<close>

definition begin_guarantee :: "W_state \<Rightarrow> bool" where
  "begin_guarantee st =
     ((W_mode st = Live \<or> W_mode st = Demo) \<and>
      (case gameState st of None \<Rightarrow> False | Some g \<Rightarrow> length (choices g) = 3 \<and> story g \<noteq> []))"

text \<open>Three answers of a backend: a first scene, a following scene, and a scene with a
  single choice and no text.\<close>

definition live_payload :: payload where
  "live_payload =
     \<lparr>success = True, message = None, session_id = Some ''s1'',
      r_story = ''A door creaks open.'',
      r_choices = [''Go in'', ''Wait'', ''Run''],
      player_stats = [(''health'', Num 90)],
      player_action = Some ''You go in''\<rparr>"


definition short_payload :: payload where
  "short_payload =
     \<lparr>success = True, message = None, session_id = Some ''s2'',
      r_story = [], r_choices = [''Go on''], player_stats = [], player_action = None\<rparr>"

text \<open>The screen with the fallback after a first start: without a backend, and with one.\<close>

definition W_demo_state :: W_state where
  "W_demo_state = W_startNewGame W_init (Rejected None)"

definition W_live_state :: W_state where
  "W_live_state = W_startNewGame W_init (Resolved (Some live_payload))"

text \<open>The live session while the request of a first choice (index 1, at time 5) is out.\<close>

definition W_busy_state :: W_state where
  "W_busy_state =
     \<lparr>gameState = Some \<lparr>story = ''A door creaks open.'', choices = [''Go in'', ''Wait'', ''Run''],
                         stats = [(''health'', Num 90)]\<rparr>,
      history = [\<lparr>entry_story = ''A door creaks open.'', entry_choice = Some ''Wait'',
                  entry_timestamp = 5\<rparr>],
      isLoading = True, error = None, sessionId = Some ''s1'', demoMode = False\<rparr>"

text \<open>The live screen and App.js after a first start with a backend.\<close>

definition G_live_state :: G_state where
  "G_live_state = G_startNewGame G_init (Resolved (Some live_payload))"

definition App_live_state :: App_state where
  "App_live_state = fst (App_startNewGame App_init ''Aria'' (Returned live_payload))"

section \<open>Properties of the stat presentation mapping\<close>

lemma lower_ascii_only:
  "\<forall>c\<in>set s. (of_char c :: nat) < 128 \<Longrightarrow> lower_ascii_kelvin s = Some (map ascii_lower s)"
  by (induction s) simp_all

lemma lower_kelvin_sign:
  "lower_ascii_kelvin (kelvin_sign @ s) = map_option ((#) CHR ''k'') (lower_ascii_kelvin s)"
  by (simp add: kelvin_sign_def)

lemma lower_ascii_then_kelvin:
  "\<forall>c\<in>set xs. (of_char c :: nat) < 128 \<Longrightarrow>
   lower_ascii_kelvin (xs @ kelvin_sign @ ys) =
     map_option (\<lambda>r. map ascii_lower xs @ CHR ''k'' # r) (lower_ascii_kelvin ys)"
proof (induction xs)
  case Nil
  show ?case
    by (simp add: lower_kelvin_sign option.map_ident)
next
  case (Cons x xs)
  then show ?case
    by (simp add: option.map_comp comp_def)
qed

lemma lower_none_has_other:
  "lower_ascii_kelvin s = None \<Longrightarrow> \<exists>c\<in>set s. 128 \<le> (of_char c :: nat)"
proof (induction s rule: lower_ascii_kelvin.induct)
  case 1
  then show ?case by simp
next
  case (2 c cs)
  show ?case
  proof (cases "(of_char c :: nat) < 128")
    case True
    with 2 show ?thesis by auto
  next
    case False
    then show ?thesis by auto
  qed
qed

lemma keyword_is_ascii:
  "k \<in> {''hp'', ''health'', ''gold'', ''coins'', ''defense'', ''armor'', ''strength'', ''attack''}
   \<Longrightarrow> \<forall>c\<in>set k. (of_char c :: nat) < 128"
  by auto

lemma ascii_lower_alphabet:
  "map ascii_lower ''ABCDEFGHIJKLMNOPQRSTUVWXYZ'' = ''abcdefghijklmnopqrstuvwxyz''"
  by (simp add: ascii_lower_def char_of_def bit_iff_odd)

lemma ascii_lower_other:
  "\<forall>c\<in>set s. (of_char c :: nat) < 65 \<or> 90 < (of_char c :: nat) \<Longrightarrow> map ascii_lower s = s"
  by (induction s) (auto simp add: ascii_lower_def Let_def)

text \<open>
  C6. The stat presentation mapping is a total function of key and value. The key is
  matched after \<open>toLowerCase\<close>, so keys with the same lower-case form get the same
  category and colour: hp/health are the health category, gold/coins currency,
  defense/armor defense, strength/attack offense, every other key generic. On ASCII keys
  the lower-case form is the key with \<open>A\<close>..\<open>Z\<close> moved to \<open>a\<close>..\<open>z\<close>, and a Kelvin sign
  counts as \<open>k\<close>; a key with another character outside ASCII is generic whenever its
  lower-case form keeps a character outside ASCII. For a health key and a numeric value
  the tier is nominal above 75, caution from 26 to 75 and critical up to 25; a non-numeric
  health value and an unrecognised key still get a colour.
\<close>

theorem stat_presentation_mapping:
  "category U key =
     (if toLowerCase U key \<in> {''hp'', ''health''} then health
      else if toLowerCase U key \<in> {''gold'', ''coins''} then currency
      else if toLowerCase U key \<in> {''defense'', ''armor''} then defense
      else if toLowerCase U key \<in> {''strength'', ''attack''} then offense
      else generic) \<and>
   (toLowerCase U key' = toLowerCase U key \<longrightarrow>
      category U key' = category U key \<and> getStatColor U key' w = getStatColor U key w) \<and>
   ((\<forall>c\<in>set xs \<union> set ys. (of_char c :: nat) < 128) \<longrightarrow>
      toLowerCase U xs = map ascii_lower xs \<and>
      toLowerCase U (xs @ kelvin_sign @ ys) = map ascii_lower xs @ ''k'' @ map ascii_lower ys) \<and>
   ((\<forall>s. lower_ascii_kelvin s = None \<longrightarrow> (\<exists>c\<in>set (U s). 128 \<le> (of_char c :: nat))) \<and>
    lower_ascii_kelvin key = None \<longrightarrow>
      category U key = generic \<and> getStatColor U key w = ''#e0c080'') \<and>
   (category U key = health \<longrightarrow>
      (75 < v \<longrightarrow> tier_of_color (getStatColor U key (Num v)) = Some nominal) \<and>
      (26 \<le> v \<and> v \<le> 75 \<longrightarrow> tier_of_color (getStatColor U key (Num v)) = Some caution) \<and>
      (v \<le> 25 \<longrightarrow> tier_of_color (getStatColor U key (Num v)) = Some critical) \<and>
      (\<not> is_number w \<longrightarrow> getStatColor U key w = ''#4caf50'')) \<and>
   (category U key \<noteq> health \<longrightarrow>
      getStatColor U key w = (if category U key = currency then ''#ffd700'' else ''#e0c080'')) \<and>
   toLowerCase U ''ABCDEFGHIJKLMNOPQRSTUVWXYZ'' = ''abcdefghijklmnopqrstuvwxyz'' \<and>
   ((\<forall>c\<in>set xs. (of_char c :: nat) < 65 \<or> 90 < (of_char c :: nat) \<and> (of_char c :: nat) < 128) \<longrightarrow>
      toLowerCase U xs = xs)"
proof -
  have A: "category U key =
     (if toLowerCase U key \<in> {''hp'', ''health''} then health
      else if toLowerCase U key \<in> {''gold'', ''coins''} then currency
      else if toLowerCase U key \<in> {''defense'', ''armor''} then defense
      else if toLowerCase U key \<in> {''strength'', ''attack''} then offense
      else generic)"
    by (simp add: category_def getStatIcon_def Let_def)
  have B: "toLowerCase U key' = toLowerCase U key \<longrightarrow>
      category U key' = category U key \<and> getStatColor U key' w = getStatColor U key w"
    by (simp add: category_def getStatIcon_def getStatColor_def Let_def)
  have C: "(\<forall>c\<in>set xs \<union> set ys. (of_char c :: nat) < 128) \<longrightarrow>
      toLowerCase U xs = map ascii_lower xs \<and>
      toLowerCase U (xs @ kelvin_sign @ ys) = map ascii_lower xs @ ''k'' @ map ascii_lower ys"
    by (simp add: toLowerCase_def lower_ascii_only lower_ascii_then_kelvin)
  have D: "(\<forall>s. lower_ascii_kelvin s = None \<longrightarrow> (\<exists>c\<in>set (U s). 128 \<le> (of_char c :: nat))) \<and>
    lower_ascii_kelvin key = None \<longrightarrow>
      category U key = generic \<and> getStatColor U key w = ''#e0c080''"
  proof
    assume h: "(\<forall>s. lower_ascii_kelvin s = None \<longrightarrow> (\<exists>c\<in>set (U s). 128 \<le> (of_char c :: nat))) \<and>
      lower_ascii_kelvin key = None"
    then have l: "toLowerCase U key = U key"
      by (simp add: toLowerCase_def)
    from h obtain c where c: "c \<in> set (U key)" "128 \<le> (of_char c :: nat)"
      by blast
    have "U key \<notin> {''hp'', ''health'', ''gold'', ''coins'', ''defense'', ''armor'',
                      ''strength'', ''attack''}"
    proof
      assume "U key \<in> {''hp'', ''health'', ''gold'', ''coins'', ''defense'', ''armor'',
                      ''strength'', ''attack''}"
      from keyword_is_ascii [OF this] c show False
        by auto
    qed
    with l show "category U key = generic \<and> getStatColor U key w = ''#e0c080''"
      by (simp add: category_def getStatIcon_def getStatColor_def Let_def)
  qed
  have E: "category U key = health \<longrightarrow>
      (75 < v \<longrightarrow> tier_of_color (getStatColor U key (Num v)) = Some nominal) \<and>
      (26 \<le> v \<and> v \<le> 75 \<longrightarrow> tier_of_color (getStatColor U key (Num v)) = Some caution) \<and>
      (v \<le> 25 \<longrightarrow> tier_of_color (getStatColor U key (Num v)) = Some critical) \<and>
      (\<not> is_number w \<longrightarrow> getStatColor U key w = ''#4caf50'')"
    unfolding category_def getStatIcon_def getStatColor_def tier_of_color_def Let_def
    by (cases w) auto
  have F: "category U key \<noteq> health \<longrightarrow>
      getStatColor U key w = (if category U key = currency then ''#ffd700'' else ''#e0c080'')"
    unfolding category_def getStatIcon_def getStatColor_def Let_def
    by auto
  have a: "\<forall>c\<in>set ''ABCDEFGHIJKLMNOPQRSTUVWXYZ''. (of_char c :: nat) < 128"
    by simp
  have G: "toLowerCase U ''ABCDEFGHIJKLMNOPQRSTUVWXYZ'' = ''abcdefghijklmnopqrstuvwxyz''"
    unfolding toLowerCase_def lower_ascii_only [OF a] ascii_lower_alphabet by simp
  have H: "(\<forall>c\<in>set xs. (of_char c :: nat) < 65 \<or> 90 < (of_char c :: nat) \<and> (of_char c :: nat) < 128) \<longrightarrow>
      toLowerCase U xs = xs"
  proof
    assume h: "\<forall>c\<in>set xs. (of_char c :: nat) < 65 \<or> 90 < (of_char c :: nat) \<and> (of_char c :: nat) < 128"
    then have "\<forall>c\<in>set xs. (of_char c :: nat) < 128"
      by auto
    from lower_ascii_only [OF this] have "toLowerCase U xs = map ascii_lower xs"
      by (simp add: toLowerCase_def)
    moreover from h have "map ascii_lower xs = xs"
      by (intro ascii_lower_other) auto
    ultimately show "toLowerCase U xs = xs"
      by simp
  qed
  from A B C D E F G H show ?thesis
    by blast
qed

theorem stat_presentation_mapping_witness:
  "(\<forall>U. category U ''HP'' = health \<and> category U ''Gold'' = currency \<and>
        category U ''mana'' = generic \<and> category U ''Armor'' = defense \<and>
        category U ''ATTACK'' = offense \<and>
        category U (''attac'' @ kelvin_sign) = offense \<and>
        tier_of_color (getStatColor U ''HP'' (Num 80)) = Some nominal \<and>
        tier_of_color (getStatColor U ''HP'' (Num 50)) = Some caution \<and>
        tier_of_color (getStatColor U ''HP'' (Num 10)) = Some critical \<and>
        getStatColor U ''HP'' (Str ''full'') = ''#4caf50'' \<and>
        getStatColor U ''Health'' (Num 10) = getStatColor U ''health'' (Num 10) \<and>
        getStatColor U ''mana'' (Num 3) = ''#e0c080'' \<and>
        toLowerCase U ''ABCDEFGHIJKLMNOPQRSTUVWXYZ'' = ''abcdefghijklmnopqrstuvwxyz'' \<and>
        toLowerCase U ''@[`{_ 09'' = ''@[`{_ 09'') \<and>
   lower_ascii_kelvin [CHR 0xC3, CHR 0xA9] = None \<and>
   category (\<lambda>s. s) [CHR 0xC3, CHR 0xA9] = generic"
proof -
  note T = stat_presentation_mapping
  have low: "toLowerCase U xs = map ascii_lower xs \<and>
             toLowerCase U (xs @ kelvin_sign @ []) = map ascii_lower xs @ ''k'' @ map ascii_lower []"
    if "\<forall>c\<in>set xs \<union> set []. (of_char c :: nat) < 128" for U xs
    using T [where U = U and xs = xs and ys = "[]", THEN conjunct2, THEN conjunct2, THEN conjunct1]
      that by (rule mp)
  have lc: "toLowerCase U ''HP'' = ''hp''" "toLowerCase U ''Gold'' = ''gold''"
    "toLowerCase U ''mana'' = ''mana''" "toLowerCase U ''Armor'' = ''armor''"
    "toLowerCase U ''ATTACK'' = ''attack''"
    "toLowerCase U (''attac'' @ kelvin_sign) = ''attack''"
    "toLowerCase U ''Health'' = ''health''" "toLowerCase U ''health'' = ''health''" for U
    using low [of "''HP''" U] low [of "''Gold''" U] low [of "''mana''" U] low [of "''Armor''" U]
      low [of "''ATTACK''" U] low [of "''attac''" U] low [of "''Health''" U]
      low [of "''health''" U]
    by (simp_all add: ascii_lower_def char_of_def bit_iff_odd)
  have cat: "category U key =
     (if toLowerCase U key \<in> {''hp'', ''health''} then health
      else if toLowerCase U key \<in> {''gold'', ''coins''} then currency
      else if toLowerCase U key \<in> {''defense'', ''armor''} then defense
      else if toLowerCase U key \<in> {''strength'', ''attack''} then offense
      else generic)" for U key
    by (rule T [THEN conjunct1])
  have c: "category U ''HP'' = health" "category U ''Gold'' = currency"
    "category U ''mana'' = generic" "category U ''Armor'' = defense"
    "category U ''ATTACK'' = offense" "category U (''attac'' @ kelvin_sign) = offense" for U
    unfolding cat lc by simp_all
  have same: "getStatColor U ''Health'' (Num 10) = getStatColor U ''health'' (Num 10)" for U
    using T [where U = U and key = "''health''" and key' = "''Health''" and w = "Num 10",
        THEN conjunct2, THEN conjunct1]
    unfolding lc by simp
  have tiers: "(75 < v \<longrightarrow> tier_of_color (getStatColor U ''HP'' (Num v)) = Some nominal) \<and>
      (26 \<le> v \<and> v \<le> 75 \<longrightarrow> tier_of_color (getStatColor U ''HP'' (Num v)) = Some caution) \<and>
      (v \<le> 25 \<longrightarrow> tier_of_color (getStatColor U ''HP'' (Num v)) = Some critical) \<and>
      (\<not> is_number w \<longrightarrow> getStatColor U ''HP'' w = ''#4caf50'')" for U v w
    using T [where U = U and key = "''HP''" and v = v and w = w,
        THEN conjunct2, THEN conjunct2, THEN conjunct2, THEN conjunct2, THEN conjunct1]
      c(1) [of U]
    by (rule mp)
  have t: "tier_of_color (getStatColor U ''HP'' (Num 80)) = Some nominal"
    "tier_of_color (getStatColor U ''HP'' (Num 50)) = Some caution"
    "tier_of_color (getStatColor U ''HP'' (Num 10)) = Some critical"
    "getStatColor U ''HP'' (Str ''full'') = ''#4caf50''" for U
    using tiers [of 80 U "Str ''full''"] tiers [of 50 U "Str ''full''"]
      tiers [of 10 U "Str ''full''"]
    by simp_all
  have other: "getStatColor U ''mana'' (Num 3) = ''#e0c080''" for U
    using T [where U = U and key = "''mana''" and w = "Num 3",
        THEN conjunct2, THEN conjunct2, THEN conjunct2, THEN conjunct2, THEN conjunct2,
        THEN conjunct1]
      c(3) [of U]
    by simp
  have alpha: "toLowerCase U ''ABCDEFGHIJKLMNOPQRSTUVWXYZ'' = ''abcdefghijklmnopqrstuvwxyz''"
    for U
    by (rule T [THEN conjunct2, THEN conjunct2, THEN conjunct2, THEN conjunct2, THEN conjunct2,
          THEN conjunct2, THEN conjunct1])
  have rest: "toLowerCase U ''@[`{_ 09'' = ''@[`{_ 09''" for U
    using T [where U = U and xs = "''@[`{_ 09''", THEN conjunct2, THEN conjunct2,
        THEN conjunct2, THEN conjunct2, THEN conjunct2, THEN conjunct2, THEN conjunct2]
    by simp
  have n: "lower_ascii_kelvin [CHR 0xC3, CHR 0xA9] = None"
    by (simp add: kelvin_sign_def)
  have u: "\<forall>s. lower_ascii_kelvin s = None \<longrightarrow> (\<exists>c\<in>set ((\<lambda>s. s) s). 128 \<le> (of_char c :: nat))"
    using lower_none_has_other by simp
  from T [where U = "\<lambda>s. s" and key = "[CHR 0xC3, CHR 0xA9]",
      THEN conjunct2, THEN conjunct2, THEN conjunct2, THEN conjunct1] u n
  have g: "category (\<lambda>s. s) [CHR 0xC3, CHR 0xA9] = generic"
    by blast
  from c t same other alpha rest n g show ?thesis
    by blast
qed

section \<open>Concrete sessions\<close>

lemma W_demo_state_eq:
  "W_demo_state = \<lparr>gameState = Some W_demoData, history = [], isLoading = False,
                    error = None, sessionId = None, demoMode = True\<rparr>"
  by (simp add: W_demo_state_def W_startNewGame_def W_startNewGame_sync_def
      W_startNewGame_resume_def W_init_def)

lemma W_live_state_eq:
  "W_live_state =
     \<lparr>gameState = Some \<lparr>story = ''A door creaks open.'', choices = [''Go in'', ''Wait'', ''Run''],
                         stats = [(''health'', Num 90)]\<rparr>,
      history = [], isLoading = False, error = None, sessionId = Some ''s1'',
      demoMode = False\<rparr>"
  by (simp add: W_live_state_def W_startNewGame_def W_startNewGame_sync_def
      W_startNewGame_resume_def W_init_def live_payload_def)

lemma W_busy_state_reached:
  "W_makeChoice_sync W_live_state 1 5 = Inr (W_busy_state, Some (MakeChoice ''s1'' 1))"
  by (simp add: W_live_state_eq W_busy_state_def W_makeChoice_sync_def js_index_def)

lemma G_live_state_eq:
  "G_live_state =
     \<lparr>gameState = Some \<lparr>story = ''A door creaks open.'', choices = [''Go in'', ''Wait'', ''Run''],
                         stats = [(''health'', Num 90)]\<rparr>,
      history = [], isLoading = False, error = None, sessionId = Some ''s1''\<rparr>"
  by (simp add: G_live_state_def G_startNewGame_def G_startNewGame_sync_def
      G_startNewGame_resume_def G_init_def live_payload_def)

lemma App_live_state_eq:
  "App_live_state =
     \<lparr>app_gameState = Page_playing, app_sessionId = Some ''s1'',
      currentStory = ''A door creaks open.'', currentChoices = [''Go in'', ''Wait'', ''Run''],
      playerStats = Some [(''health'', Num 90)], storyHistory = [], app_isLoading = False\<rparr>"
  by (simp add: App_live_state_def App_startNewGame_def App_startNewGame_sync_def
      App_startNewGame_resume_def App_init_def live_payload_def)

section \<open>Starting a game\<close>

text \<open>
  C1, as the code has it. In the screen with the demo fallback a start that the backend
  does not accept ends in demo mode with the built-in scene, which has three choices and
  a story, and no exception can leave the function. A start that the backend accepts
  installs the story and the choices of the answer as they are, so the guarantee holds
  exactly when the answer carries a session id, three choices and a story. App.js has no
  fallback: a failed start goes back to the welcome page and leaves story and choices as
  they were.
\<close>

theorem begin_outcomes:
  "(W_accepted resp = None \<longrightarrow>
      W_startNewGame st resp =
        st\<lparr>gameState := Some W_demoData, history := [], isLoading := False,
           error := None, demoMode := True\<rparr> \<and>
      W_mode (W_startNewGame st resp) = Demo \<and>
      begin_guarantee (W_startNewGame st resp)) \<and>
   (W_accepted resp = Some d \<longrightarrow>
      W_startNewGame st resp =
        st\<lparr>gameState := Some \<lparr>story = r_story d, choices = r_choices d, stats = player_stats d\<rparr>,
           history := [], isLoading := False, error := None, sessionId := session_id d,
           demoMode := False\<rparr> \<and>
      (begin_guarantee (W_startNewGame st resp) \<longleftrightarrow>
         truthy (session_id d) \<and> length (r_choices d) = 3 \<and> r_story d \<noteq> [])) \<and>
   App_startNewGame ast name Threw =
     (ast\<lparr>app_gameState := Page_welcome, app_isLoading := False\<rparr>,
      Toast_error ''Failed to start game. Please try again.'') \<and>
   App_startNewGame ast name (Returned r) =
     (ast\<lparr>app_gameState := Page_playing, app_sessionId := session_id r,
          currentStory := r_story r, currentChoices := r_choices r,
          playerStats := Some (player_stats r), storyHistory := [], app_isLoading := False\<rparr>,
      Toast_success (''Welcome, '' @ name @ ''! Your adventure begins...''))"
  by (auto simp add: begin_guarantee_def W_startNewGame_def W_startNewGame_sync_def
      W_startNewGame_resume_def W_mode_def W_demoData_def
      App_startNewGame_def App_startNewGame_sync_def App_startNewGame_resume_def)

theorem begin_outcomes_witness:
  "W_accepted (Rejected None) = None \<and>
   W_accepted (Resolved (Some live_payload)) = Some live_payload \<and>
   begin_guarantee (W_startNewGame W_init (Rejected None)) \<and>
   begin_guarantee (W_startNewGame W_init (Resolved (Some live_payload))) \<and>
   sessionId (W_startNewGame W_init (Resolved (Some live_payload))) = Some ''s1''"
proof -
  let ?ok = "Resolved (Some live_payload)"
  have a: "W_accepted (Rejected None) = None"
    and b: "W_accepted ?ok = Some live_payload"
    by (simp_all add: live_payload_def)
  have c: "truthy (session_id live_payload) \<and> length (r_choices live_payload) = 3 \<and>
           r_story live_payload \<noteq> []"
    by (simp add: live_payload_def truthy_def)
  from begin_outcomes [of "Rejected None" W_init live_payload App_init "''Aria''" live_payload] a
  have d: "begin_guarantee (W_startNewGame W_init (Rejected None))"
    by blast
  from begin_outcomes [of ?ok W_init live_payload App_init "''Aria''" live_payload] b c
  have e: "begin_guarantee (W_startNewGame W_init ?ok)"
    by blast
  have f: "sessionId (W_startNewGame W_init ?ok) = Some ''s1''"
    using W_live_state_eq by (simp add: W_live_state_def)
  from a b d e f show ?thesis
    by blast
qed

text \<open>
  The claim as written fails: an accepted answer with one choice and no text is installed
  unchanged, and a failed start in App.js shows the welcome page with no story and no
  choices.
\<close>

theorem begin_guarantee_counterexample:
  "\<not> begin_guarantee (W_startNewGame W_init (Resolved (Some short_payload))) \<and>
   W_mode (W_startNewGame W_init (Resolved (Some short_payload))) = Live \<and>
   gameState (W_startNewGame W_init (Resolved (Some short_payload))) =
     Some \<lparr>story = [], choices = [''Go on''], stats = []\<rparr> \<and>
   app_gameState (fst (App_startNewGame App_init ''Aria'' Threw)) = Page_welcome \<and>
   currentStory (fst (App_startNewGame App_init ''Aria'' Threw)) = [] \<and>
   currentChoices (fst (App_startNewGame App_init ''Aria'' Threw)) = []"
  by (simp add: begin_guarantee_def W_startNewGame_def W_startNewGame_sync_def
      W_startNewGame_resume_def W_init_def short_payload_def W_mode_def truthy_def
      App_startNewGame_def App_startNewGame_sync_def App_startNewGame_resume_def App_init_def)

text \<open>
  C8, as the code has it. Every completed start clears the history. An accepted start
  replaces the session id by the one in the answer; a start that falls back to demo mode
  does not touch the session id. So on a first start, where the id was null, the id is
  set exactly in live mode; after a live session the old id stays in the state of the
  demo session, where \<open>makeChoice\<close> sends no request and leaves it alone.
\<close>

theorem begin_session_id:
  "history (W_startNewGame st resp) = [] \<and>
   (W_accepted resp = Some d \<longrightarrow>
      sessionId (W_startNewGame st resp) = session_id d \<and> \<not> demoMode (W_startNewGame st resp)) \<and>
   (W_accepted resp = None \<longrightarrow>
      sessionId (W_startNewGame st resp) = sessionId st \<and> demoMode (W_startNewGame st resp)) \<and>
   (sessionId st = None \<longrightarrow>
      (truthy (sessionId (W_startNewGame st resp)) \<longleftrightarrow> W_mode (W_startNewGame st resp) = Live)) \<and>
   (demoMode st \<and> gameState st = Some g \<longrightarrow>
      (\<exists>st'. W_makeChoice_sync st i now = Inr (st', None) \<and> sessionId st' = sessionId st))"
  by (auto simp add: W_startNewGame_def W_startNewGame_sync_def W_startNewGame_resume_def
      W_mode_def truthy_def W_makeChoice_sync_def split: option.splits)

theorem begin_session_id_witness:
  "W_accepted (Resolved (Some live_payload)) = Some live_payload \<and>
   W_accepted (Rejected None) = None \<and>
   sessionId W_init = None \<and>
   sessionId (W_startNewGame W_init (Resolved (Some live_payload))) = Some ''s1'' \<and>
   W_mode (W_startNewGame W_init (Resolved (Some live_payload))) = Live \<and>
   sessionId (W_startNewGame W_init (Rejected None)) = None \<and>
   demoMode (W_startNewGame W_init (Rejected None)) \<and>
   demoMode W_demo_state \<and> gameState W_demo_state = Some W_demoData \<and>
   (\<exists>st'. W_makeChoice_sync W_demo_state 0 9 = Inr (st', None) \<and> sessionId st' = None)"
proof -
  let ?ok = "Resolved (Some live_payload)"
  have a: "W_accepted ?ok = Some live_payload"
    and b: "W_accepted (Rejected None) = None"
    and c: "sessionId W_init = None"
    and t: "truthy (session_id live_payload)" "session_id live_payload = Some ''s1''"
    by (simp_all add: live_payload_def W_init_def truthy_def)
  have d: "demoMode W_demo_state \<and> gameState W_demo_state = Some W_demoData"
    and n: "sessionId W_demo_state = None"
    by (simp_all add: W_demo_state_eq)
  from begin_session_id [of W_init ?ok live_payload W_demoData 0 9] a c t
  have 1: "sessionId (W_startNewGame W_init ?ok) = Some ''s1''"
    and 2: "W_mode (W_startNewGame W_init ?ok) = Live"
    by auto
  from begin_session_id [of W_init "Rejected None" live_payload W_demoData 0 9] b c
  have 3: "sessionId (W_startNewGame W_init (Rejected None)) = None"
    and 4: "demoMode (W_startNewGame W_init (Rejected None))"
    by auto
  from begin_session_id [of W_demo_state "Rejected None" live_payload W_demoData 0 9] d n
  have 5: "\<exists>st'. W_makeChoice_sync W_demo_state 0 9 = Inr (st', None) \<and> sessionId st' = None"
    by auto
  from a b c d 1 2 3 4 5 show ?thesis
    by blast
qed

text \<open>
  The claim as written fails: a live session with id \<open>s1\<close>, restarted while the backend
  is away, is in demo mode and still holds \<open>s1\<close>.
\<close>

theorem session_id_counterexample:
  "W_mode W_live_state = Live \<and> sessionId W_live_state = Some ''s1'' \<and>
   W_mode (W_startNewGame W_live_state (Rejected None)) = Demo \<and>
   demoMode (W_startNewGame W_live_state (Rejected None)) \<and>
   sessionId (W_startNewGame W_live_state (Rejected None)) = Some ''s1''"
  by (simp add: W_live_state_eq W_mode_def truthy_def W_startNewGame_def
      W_startNewGame_sync_def W_startNewGame_resume_def)

section \<open>Making a choice\<close>

text \<open>
  C2, as the code has it. No \<open>makeChoice\<close> looks at the range of the index. With an
  index outside the choices the entry added to the history has an undefined choice; the
  demo branch and the demo-only screen then show their text for "undefined" with their
  fixed next choices, the live branches set the loading flag and send the index to the
  backend as it is, and so does App.js. Nothing reports an invalid choice. The index is
  held in range by the view alone: a click reaches \<open>makeChoice\<close> only from a button
  that exists, one per choice.
\<close>

theorem choice_index_not_validated:
  \<open>i < 0 \<or> int (length (choices g)) \<le> i \<Longrightarrow>
   (demoMode st \<and> gameState st = Some g \<longrightarrow>
      W_makeChoice_sync st i now =
        Inr (st\<lparr>gameState := Some
                  \<lparr>story = ''You chose: "undefined"\<newline>\<newline>The adventure continues in demo mode...'',
                   choices = [''Continue exploring'', ''Check your surroundings'',
                              ''Try something different''],
                   stats = stats g\<rparr>,
                history := history st @
                  [\<lparr>entry_story = story g, entry_choice = None, entry_timestamp = now\<rparr>]\<rparr>,
             None)) \<and>
   (\<not> demoMode st \<and> sessionId st = Some sid \<and> sid \<noteq> [] \<and> gameState st = Some g \<longrightarrow>
      W_makeChoice_sync st i now =
        Inr (st\<lparr>history := history st @
                   [\<lparr>entry_story = story g, entry_choice = None, entry_timestamp = now\<rparr>],
                isLoading := True\<rparr>,
             Some (MakeChoice sid i))) \<and>
   (sessionId gs = Some sid \<and> sid \<noteq> [] \<and> gameState gs = Some g \<longrightarrow>
      G_makeChoice_sync gs i now =
        (gs\<lparr>history := history gs @
                [\<lparr>entry_story = story g, entry_choice = None, entry_timestamp = now\<rparr>],
             isLoading := True\<rparr>,
         Some (MakeChoice sid i))) \<and>
   (gameState ss = Some g \<longrightarrow>
      S_makeChoice ss i now =
        Inr (ss\<lparr>gameState := Some
                  \<lparr>story = ''You chose: "undefined"\<newline>\<newline>The dungeon seems to respond to your decision. New paths appear before you, each more mysterious than the last.'',
                   choices = [''Venture deeper into the shadows'',
                              ''Search for hidden treasures'',
                              ''Try to find a way back''],
                   stats = obj_set (stats g) ''experience''
                             (js_plus_10 (obj_get (stats g) ''experience''))\<rparr>,
                history := history ss @
                  [\<lparr>entry_story = story g, entry_choice = None, entry_timestamp = now\<rparr>]\<rparr>)) \<and>
   (app_sessionId ast = Some sid \<and> sid \<noteq> [] \<longrightarrow>
      App_makeChoice_sync ast i = (ast\<lparr>app_isLoading := True\<rparr>, Some (MakeChoice sid i))) \<and>
   (gameState st = Some g \<longrightarrow>
      W_click_choice st n now =
        (if n < length (choices g) \<and> \<not> isLoading st then W_makeChoice_sync st (int n) now
         else Inr (st, None))) \<and>
   (gameState st = None \<longrightarrow> W_click_choice st n now = Inr (st, None))\<close>
  by (auto simp add: W_makeChoice_sync_def G_makeChoice_sync_def S_makeChoice_def
      App_makeChoice_sync_def W_click_choice_def js_index_def js_template_def)

theorem choice_index_not_validated_witness:
  \<open>((3::int) < 0 \<or> int (length (choices W_demoData)) \<le> 3) \<and>
   demoMode W_demo_state \<and> gameState W_demo_state = Some W_demoData \<and>
   (\<exists>st'. W_makeChoice_sync W_demo_state 3 7 = Inr (st', None) \<and>
      history st' = [\<lparr>entry_story = story W_demoData, entry_choice = None,
                       entry_timestamp = 7\<rparr>]) \<and>
   W_click_choice W_demo_state 3 7 = Inr (W_demo_state, None) \<and>
   W_click_choice W_demo_state 2 7 = W_makeChoice_sync W_demo_state 2 7 \<and>
   gameState W_init = None \<and> W_click_choice W_init 0 7 = Inr (W_init, None) \<and>
   ((- 1 :: int) < 0 \<or> int (length [''Go in'', ''Wait'', ''Run'']) \<le> - 1) \<and>
   \<not> demoMode W_live_state \<and> sessionId W_live_state = Some ''s1'' \<and>
   (\<exists>st'. W_makeChoice_sync W_live_state (- 1) 7 = Inr (st', Some (MakeChoice ''s1'' (- 1))) \<and>
      map entry_choice (history st') = [None]) \<and>
   sessionId G_live_state = Some ''s1'' \<and>
   map entry_choice (history (fst (G_makeChoice_sync G_live_state (- 1) 7))) = [None] \<and>
   app_sessionId App_live_state = Some ''s1'' \<and>
   App_makeChoice_sync App_live_state (- 1) =
     (App_live_state\<lparr>app_isLoading := True\<rparr>, Some (MakeChoice ''s1'' (- 1))) \<and>
   gameState S_init = Some S_demoData \<and>
   (\<exists>ss' g'. S_makeChoice S_init 3 7 = Inr ss' \<and> map entry_choice (history ss') = [None] \<and>
      gameState ss' = Some g' \<and>
      story g' = ''You chose: "undefined"\<newline>\<newline>The dungeon seems to respond to your decision. New paths appear before you, each more mysterious than the last.'' \<and>
      choices g' = [''Venture deeper into the shadows'', ''Search for hidden treasures'',
                    ''Try to find a way back''] \<and>
      stats g' = [(''name'', Str ''Brave Adventurer''), (''health'', Num 100),
                  (''gold'', Num 25), (''level'', Num 1), (''experience'', Num 10)])\<close>
proof -
  note T = choice_index_not_validated
  let ?g = "\<lparr>story = ''A door creaks open.'', choices = [''Go in'', ''Wait'', ''Run''],
             stats = [(''health'', Num 90)]\<rparr>"
  have a: "(3::int) < 0 \<or> int (length (choices W_demoData)) \<le> 3"
    and a': "(3::int) < 0 \<or> int (length (choices S_demoData)) \<le> 3"
    and a'': "(- 1 :: int) < 0 \<or> int (length (choices ?g)) \<le> - 1"
    by (simp_all add: W_demoData_def S_demoData_def)
  have b: "demoMode W_demo_state \<and> gameState W_demo_state = Some W_demoData"
    and c: "history W_demo_state = []"
    and ld: "\<not> isLoading W_demo_state"
    and cd: "length (choices W_demoData) = 3"
    by (simp_all add: W_demo_state_eq W_demoData_def)
  have i0: "gameState W_init = None"
    by (simp add: W_init_def)
  have l: "\<not> demoMode W_live_state \<and> sessionId W_live_state = Some ''s1'' \<and> ''s1'' \<noteq> [] \<and>
           gameState W_live_state = Some ?g"
    and lh: "history W_live_state = []"
    by (simp_all add: W_live_state_eq)
  have gl: "sessionId G_live_state = Some ''s1'' \<and> ''s1'' \<noteq> [] \<and>
            gameState G_live_state = Some ?g"
    and gh: "history G_live_state = []"
    by (simp_all add: G_live_state_eq)
  have ap: "app_sessionId App_live_state = Some ''s1'' \<and> ''s1'' \<noteq> []"
    by (simp add: App_live_state_eq)
  have s: "gameState S_init = Some S_demoData" and sh: "history S_init = []"
    by (simp_all add: S_init_def)
  from T [OF a, where st = W_demo_state and now = 7 and sid = "''s1''" and gs = G_live_state
      and ss = S_init and ast = App_live_state and n = 3] b c cd
  have 1: "\<exists>st'. W_makeChoice_sync W_demo_state 3 7 = Inr (st', None) \<and>
      history st' = [\<lparr>entry_story = story W_demoData, entry_choice = None,
                       entry_timestamp = 7\<rparr>]"
    and v3: "W_click_choice W_demo_state 3 7 = Inr (W_demo_state, None)"
    by simp_all
  from T [OF a, where st = W_demo_state and now = 7 and sid = "''s1''" and gs = G_live_state
      and ss = S_init and ast = App_live_state and n = 2] b ld cd
  have v2: "W_click_choice W_demo_state 2 7 = W_makeChoice_sync W_demo_state 2 7"
    by simp
  from T [OF a, where st = W_init and now = 7 and sid = "''s1''" and gs = G_live_state
      and ss = S_init and ast = App_live_state and n = 0] i0
  have v0: "W_click_choice W_init 0 7 = Inr (W_init, None)"
    by blast
  from T [OF a'', where st = W_live_state and now = 7 and sid = "''s1''" and gs = G_live_state
      and ss = S_init and ast = App_live_state and n = 0] l lh gl gh ap
  have 2: "\<exists>st'. W_makeChoice_sync W_live_state (- 1) 7 =
             Inr (st', Some (MakeChoice ''s1'' (- 1))) \<and> map entry_choice (history st') = [None]"
    and 3: "map entry_choice (history (fst (G_makeChoice_sync G_live_state (- 1) 7))) = [None]"
    and 5: "App_makeChoice_sync App_live_state (- 1) =
              (App_live_state\<lparr>app_isLoading := True\<rparr>, Some (MakeChoice ''s1'' (- 1)))"
    by simp_all
  from T [OF a', where st = W_demo_state and now = 7 and sid = "''s1''" and gs = G_live_state
      and ss = S_init and ast = App_live_state and n = 0] s sh
  have 4: \<open>\<exists>ss' g'. S_makeChoice S_init 3 7 = Inr ss' \<and> map entry_choice (history ss') = [None] \<and>
      gameState ss' = Some g' \<and>
      story g' = ''You chose: "undefined"\<newline>\<newline>The dungeon seems to respond to your decision. New paths appear before you, each more mysterious than the last.'' \<and>
      choices g' = [''Venture deeper into the shadows'', ''Search for hidden treasures'',
                    ''Try to find a way back''] \<and>
      stats g' = [(''name'', Str ''Brave Adventurer''), (''health'', Num 100),
                  (''gold'', Num 25), (''level'', Num 1), (''experience'', Num 10)]\<close>
    by (auto simp add: S_demoData_def obj_get_def)
  from a a'' b i0 l gl ap s 1 v3 v2 v0 2 3 5 4 show ?thesis
    by simp
qed

text \<open>
  The claim as written fails: in the demo session, index 3 and index -1 are taken like any
  other, an entry is added and the story is replaced.
\<close>

theorem invalid_choice_counterexample:
  \<open>W_makeChoice_sync W_demo_state 3 7 =
     Inr (W_demo_state
            \<lparr>gameState := Some
               \<lparr>story = ''You chose: "undefined"\<newline>\<newline>The adventure continues in demo mode...'',
                choices = [''Continue exploring'', ''Check your surroundings'',
                           ''Try something different''],
                stats = stats W_demoData\<rparr>,
             history := [\<lparr>entry_story = story W_demoData, entry_choice = None,
                          entry_timestamp = 7\<rparr>]\<rparr>,
          None) \<and>
   W_makeChoice_sync W_demo_state 3 7 \<noteq> Inr (W_demo_state, None) \<and>
   W_makeChoice_sync W_demo_state (- 1) 7 \<noteq> Inr (W_demo_state, None)\<close>
  by (simp add: W_demo_state_eq W_makeChoice_sync_def js_index_def js_template_def W_demoData_def)

text \<open>
  C9. In the screen with the demo fallback, a choice made in demo mode replaces story and
  choices and hands the stats on as they are; this holds for every index.
\<close>

theorem demo_choice_keeps_stats:
  \<open>demoMode st \<Longrightarrow> gameState st = Some g \<Longrightarrow>
   (\<exists>st' g'. W_makeChoice_sync st i now = Inr (st', None) \<and>
            W_makeChoice st i now resp = Inr st' \<and>
            gameState st' = Some g' \<and>
            stats g' = stats g \<and>
            story g' = ''You chose: "'' @ js_template (js_index (choices g) i) @
                       ''"\<newline>\<newline>The adventure continues in demo mode...'' \<and>
            choices g' = [''Continue exploring'', ''Check your surroundings'',
                          ''Try something different''])\<close>
  by (simp add: W_makeChoice_def W_makeChoice_sync_def)

theorem demo_choice_keeps_stats_witness:
  \<open>demoMode W_demo_state \<and> gameState W_demo_state = Some W_demoData \<and>
   (\<exists>st' g'. W_makeChoice_sync W_demo_state 1 7 = Inr (st', None) \<and>
            gameState st' = Some g' \<and>
            stats g' = [(''name'', Str ''Adventurer''), (''health'', Num 100),
                        (''gold'', Num 50), (''level'', Num 1)] \<and>
            story g' = ''You chose: "Examine the entrance for traps"\<newline>\<newline>The adventure continues in demo mode...'')\<close>
proof -
  have d: "demoMode W_demo_state" and g: "gameState W_demo_state = Some W_demoData"
    by (simp_all add: W_demo_state_eq)
  show ?thesis
    using demo_choice_keeps_stats [OF d g, of 1 7 "Rejected None"] d g
    by (auto simp add: W_demoData_def js_index_def js_template_def)
qed

text \<open>
  C5. A live choice whose request fails (no answer, an empty answer or a refusal) sets an
  error message that is not empty, so the screen shows it, keeps the entry added before
  the request, leaves game state and session id alone and ends loading: the screen is in
  live mode again and the same choice sends the same request. This holds in the screen
  with the demo fallback, where the message is fixed, and in the live screen, where the
  message is the one a rejection carries, if it carries one that is not empty, and the
  same fixed text otherwise.
\<close>

theorem live_choice_failure:
  "(\<not> demoMode st \<and> sessionId st = Some sid \<and> sid \<noteq> [] \<and> gameState st = Some g \<and>
    W_accepted resp = None \<longrightarrow>
      W_makeChoice st i now resp =
        Inr (st\<lparr>history := history st @
                   [\<lparr>entry_story = story g, entry_choice = js_index (choices g) i,
                     entry_timestamp = now\<rparr>],
                isLoading := False,
                error := Some ''Failed to process your choice. Please try again.''\<rparr>) \<and>
      (\<exists>st'. W_makeChoice st i now resp = Inr st' \<and> W_mode st' = Live \<and>
         gameState st' = Some g \<and>
         (\<exists>st''. W_makeChoice_sync st' i now' = Inr (st'', Some (MakeChoice sid i))))) \<and>
   (sessionId gs = Some sid \<and> sid \<noteq> [] \<and> gameState gs = Some g \<and>
    G_accepted resp = None \<longrightarrow>
      G_makeChoice gs i now resp =
        gs\<lparr>history := history gs @
               [\<lparr>entry_story = story g, entry_choice = js_index (choices g) i,
                 entry_timestamp = now\<rparr>],
            isLoading := False,
            error := Some (G_error_message resp
                     ''Failed to process your choice. Please try again.'')\<rparr> \<and>
      error (G_makeChoice gs i now resp) =
        Some (case resp of
                Rejected None \<Rightarrow> ''Failed to process your choice. Please try again.''
              | Rejected (Some m) \<Rightarrow>
                  if m = [] then ''Failed to process your choice. Please try again.'' else m
              | Resolved d \<Rightarrow> ''Failed to process your choice. Please try again.'') \<and>
      truthy (error (G_makeChoice gs i now resp)) \<and>
      G_mode (G_makeChoice gs i now resp) = Live \<and>
      (\<exists>gs''. G_makeChoice_sync (G_makeChoice gs i now resp) i now' =
                (gs'', Some (MakeChoice sid i))))"
proof -
  have m: "G_error_message resp ''Failed to process your choice. Please try again.'' =
        (case resp of
                Rejected None \<Rightarrow> ''Failed to process your choice. Please try again.''
              | Rejected (Some m) \<Rightarrow>
                  if m = [] then ''Failed to process your choice. Please try again.'' else m
              | Resolved d \<Rightarrow> ''Failed to process your choice. Please try again.'')"
    by (simp split: http.splits option.splits)
  have n: "G_error_message resp ''Failed to process your choice. Please try again.'' \<noteq> []"
    by (simp add: m split: http.splits option.splits)
  show ?thesis
    unfolding m [symmetric] using n
    by (simp add: W_makeChoice_def W_makeChoice_sync_def W_makeChoice_resume_def W_mode_def
        G_makeChoice_def G_makeChoice_sync_def G_makeChoice_resume_def G_mode_def truthy_def)
qed

theorem live_choice_failure_witness:
  "\<not> demoMode W_live_state \<and> sessionId W_live_state = Some ''s1'' \<and>
   W_accepted (Rejected None) = None \<and>
   (\<exists>st'. W_makeChoice W_live_state 1 5 (Rejected None) = Inr st' \<and>
      error st' = Some ''Failed to process your choice. Please try again.'' \<and>
      map entry_choice (history st') = [Some ''Wait''] \<and>
      gameState st' = gameState W_live_state \<and> W_mode st' = Live) \<and>
   sessionId G_live_state = Some ''s1'' \<and>
   G_accepted (Rejected (Some ''Invalid session'')) = None \<and>
   error (G_makeChoice G_live_state 1 5 (Rejected (Some ''Invalid session''))) =
     Some ''Invalid session'' \<and>
   map entry_choice (history (G_makeChoice G_live_state 1 5 (Rejected (Some ''Invalid session'')))) =
     [Some ''Wait''] \<and>
   G_mode (G_makeChoice G_live_state 1 5 (Rejected (Some ''Invalid session''))) = Live \<and>
   G_accepted (Rejected None) = None \<and>
   error (G_makeChoice G_live_state 1 5 (Rejected None)) =
     Some ''Failed to process your choice. Please try again.'' \<and>
   G_accepted (Rejected (Some [])) = None \<and>
   error (G_makeChoice G_live_state 1 5 (Rejected (Some []))) =
     Some ''Failed to process your choice. Please try again.'' \<and>
   G_accepted (Resolved None) = None \<and>
   error (G_makeChoice G_live_state 1 5 (Resolved None)) =
     Some ''Failed to process your choice. Please try again.'' \<and>
   G_accepted (Resolved (Some (live_payload\<lparr>success := False\<rparr>))) = None \<and>
   error (G_makeChoice G_live_state 1 5 (Resolved (Some (live_payload\<lparr>success := False\<rparr>)))) =
     Some ''Failed to process your choice. Please try again.''"
proof -
  note T = live_choice_failure
  let ?g = "\<lparr>story = ''A door creaks open.'', choices = [''Go in'', ''Wait'', ''Run''],
             stats = [(''health'', Num 90)]\<rparr>"
  let ?no = "Rejected (Some ''Invalid session'') :: payload http"
  let ?off = "Resolved (Some (live_payload\<lparr>success := False\<rparr>))"
  have w: "\<not> demoMode W_live_state \<and> sessionId W_live_state = Some ''s1'' \<and> ''s1'' \<noteq> [] \<and>
           gameState W_live_state = Some ?g \<and> W_accepted (Rejected None) = None"
    and wh: "history W_live_state = []"
    by (simp_all add: W_live_state_eq)
  have g: "sessionId G_live_state = Some ''s1'' \<and> ''s1'' \<noteq> [] \<and>
           gameState G_live_state = Some ?g"
    and gh: "history G_live_state = []"
    by (simp_all add: G_live_state_eq)
  have acc: "G_accepted ?no = None" "G_accepted (Rejected None) = None"
    "G_accepted (Rejected (Some [])) = None" "G_accepted (Resolved None) = None"
    "G_accepted ?off = None"
    by simp_all
  have j: "js_index (choices ?g) 1 = Some ''Wait''"
    by (simp add: js_index_def)
  from T [where st = W_live_state and sid = "''s1''" and g = ?g
      and resp = "Rejected None" and i = 1 and now = 5 and now' = 6 and gs = G_live_state] w wh j
  have 1: "\<exists>st'. W_makeChoice W_live_state 1 5 (Rejected None) = Inr st' \<and>
      error st' = Some ''Failed to process your choice. Please try again.'' \<and>
      map entry_choice (history st') = [Some ''Wait''] \<and>
      gameState st' = gameState W_live_state \<and> W_mode st' = Live"
    by auto
  have G: "G_makeChoice G_live_state 1 5 resp =
        G_live_state\<lparr>history := history G_live_state @
               [\<lparr>entry_story = story ?g, entry_choice = js_index (choices ?g) 1,
                 entry_timestamp = 5\<rparr>],
            isLoading := False,
            error := Some (G_error_message resp
                     ''Failed to process your choice. Please try again.'')\<rparr> \<and>
      error (G_makeChoice G_live_state 1 5 resp) =
        Some (case resp of
                Rejected None \<Rightarrow> ''Failed to process your choice. Please try again.''
              | Rejected (Some m) \<Rightarrow>
                  if m = [] then ''Failed to process your choice. Please try again.'' else m
              | Resolved d \<Rightarrow> ''Failed to process your choice. Please try again.'') \<and>
      truthy (error (G_makeChoice G_live_state 1 5 resp)) \<and>
      G_mode (G_makeChoice G_live_state 1 5 resp) = Live"
    if "G_accepted resp = None" for resp
    using T [where st = W_live_state and sid = "''s1''" and g = ?g
      and resp = resp and i = 1 and now = 5 and now' = 6 and gs = G_live_state] g that
    by blast
  have 2: "error (G_makeChoice G_live_state 1 5 ?no) = Some ''Invalid session''"
    using G [OF acc(1)] by simp
  have 3: "map entry_choice (history (G_makeChoice G_live_state 1 5 ?no)) = [Some ''Wait'']"
    using G [OF acc(1), THEN conjunct1] gh j by simp
  have 4: "G_mode (G_makeChoice G_live_state 1 5 ?no) = Live"
    using G [OF acc(1)] by blast
  have 5: "error (G_makeChoice G_live_state 1 5 (Rejected None)) =
     Some ''Failed to process your choice. Please try again.''"
    using G [OF acc(2)] by simp
  have 6: "error (G_makeChoice G_live_state 1 5 (Rejected (Some []))) =
     Some ''Failed to process your choice. Please try again.''"
    using G [OF acc(3)] by simp
  have 7: "error (G_makeChoice G_live_state 1 5 (Resolved None)) =
     Some ''Failed to process your choice. Please try again.''"
    using G [OF acc(4)] by simp
  have 8: "error (G_makeChoice G_live_state 1 5 ?off) =
     Some ''Failed to process your choice. Please try again.''"
    using G [OF acc(5)] by simp
  from w g acc 1 2 3 4 5 6 7 8 show ?thesis
    by simp
qed

text \<open>
  C4, as the code has it. The gate for a running request is in the view, not in
  \<open>makeChoice\<close>: the choice buttons are disabled while \<open>isLoading\<close>, so a click changes
  nothing and reports nothing. \<open>makeChoice\<close> itself does not look at \<open>isLoading\<close>:
  called in a live session with a request out, it adds an entry to the history and sends
  a second request, in the screen with the demo fallback as in App.js.
\<close>

theorem loading_gate_is_in_the_view:
  "(isLoading st \<longrightarrow>
      W_click_choice st n now = Inr (st, None) \<and>
      (\<not> demoMode st \<and> sessionId st = Some sid \<and> sid \<noteq> [] \<and> gameState st = Some g \<longrightarrow>
         W_makeChoice_sync st i now =
           Inr (st\<lparr>history := history st @
                      [\<lparr>entry_story = story g, entry_choice = js_index (choices g) i,
                        entry_timestamp = now\<rparr>]\<rparr>,
                Some (MakeChoice sid i)))) \<and>
   (app_isLoading ast \<and> app_sessionId ast = Some sid \<and> sid \<noteq> [] \<longrightarrow>
      App_makeChoice_sync ast i = (ast, Some (MakeChoice sid i)))"
  by (simp add: W_click_choice_def W_makeChoice_sync_def App_makeChoice_sync_def
      split: option.splits)

theorem loading_gate_is_in_the_view_witness:
  "isLoading W_busy_state \<and> \<not> demoMode W_busy_state \<and> sessionId W_busy_state = Some ''s1'' \<and>
   W_click_choice W_busy_state 2 6 = Inr (W_busy_state, None) \<and>
   (\<exists>st'. W_makeChoice_sync W_busy_state 2 6 = Inr (st', Some (MakeChoice ''s1'' 2)) \<and>
          length (history st') = 2) \<and>
   app_isLoading (App_live_state\<lparr>app_isLoading := True\<rparr>) \<and>
   app_sessionId (App_live_state\<lparr>app_isLoading := True\<rparr>) = Some ''s1'' \<and>
   App_makeChoice_sync (App_live_state\<lparr>app_isLoading := True\<rparr>) 2 =
     (App_live_state\<lparr>app_isLoading := True\<rparr>, Some (MakeChoice ''s1'' 2))"
proof -
  let ?g = "\<lparr>story = ''A door creaks open.'', choices = [''Go in'', ''Wait'', ''Run''],
             stats = [(''health'', Num 90)]\<rparr>"
  let ?a = "App_live_state\<lparr>app_isLoading := True\<rparr>"
  have a: "isLoading W_busy_state"
    and b: "\<not> demoMode W_busy_state \<and> sessionId W_busy_state = Some ''s1'' \<and> ''s1'' \<noteq> [] \<and>
            gameState W_busy_state = Some ?g"
    and c: "length (history W_busy_state) = 1"
    by (simp_all add: W_busy_state_def)
  have d: "app_isLoading ?a \<and> app_sessionId ?a = Some ''s1'' \<and> ''s1'' \<noteq> []"
    by (simp add: App_live_state_eq)
  from loading_gate_is_in_the_view [where st = W_busy_state and n = 2 and now = 6
      and sid = "''s1''" and g = ?g and i = 2 and ast = ?a] a b d
  have 1: "W_click_choice W_busy_state 2 6 = Inr (W_busy_state, None)"
    and 2: "\<exists>e. W_makeChoice_sync W_busy_state 2 6 =
           Inr (W_busy_state\<lparr>history := history W_busy_state @ [e]\<rparr>, Some (MakeChoice ''s1'' 2))"
    and 3: "App_makeChoice_sync ?a 2 = (?a, Some (MakeChoice ''s1'' 2))"
    by blast+
  from 2 c have two: "\<exists>st'. W_makeChoice_sync W_busy_state 2 6 =
      Inr (st', Some (MakeChoice ''s1'' 2)) \<and> length (history st') = 2"
    by auto
  from a b d 1 two 3 show ?thesis
    by blast
qed

text \<open>
  The claim as written fails: the live session \<open>W_busy_state\<close> is loading, with one entry
  in the history; a second \<open>makeChoice\<close> is taken, adds a second entry and sends a
  second request.
\<close>

theorem choice_while_loading_counterexample:
  "W_makeChoice_sync W_live_state 1 5 = Inr (W_busy_state, Some (MakeChoice ''s1'' 1)) \<and>
   W_mode W_busy_state = Loading \<and>
   length (history W_busy_state) = 1 \<and>
   W_makeChoice_sync W_busy_state 2 6 =
     Inr (W_busy_state
            \<lparr>history := [\<lparr>entry_story = ''A door creaks open.'', entry_choice = Some ''Wait'',
                           entry_timestamp = 5\<rparr>,
                         \<lparr>entry_story = ''A door creaks open.'', entry_choice = Some ''Run'',
                           entry_timestamp = 6\<rparr>]\<rparr>,
          Some (MakeChoice ''s1'' 2))"
  by (simp add: W_live_state_eq W_busy_state_def W_makeChoice_sync_def js_index_def W_mode_def)

text \<open>
  C10. In App.js, \<open>makeChoice\<close> with a null session id returns at once: the state is the
  same in every field, no request goes out and no toast is shown.
\<close>

theorem app_choice_without_session:
  "app_sessionId st = None \<Longrightarrow>
   App_makeChoice_sync st i = (st, None) \<and> App_makeChoice st i res t1 t2 = (st, None)"
  by (simp add: App_makeChoice_def App_makeChoice_sync_def)

theorem app_choice_without_session_witness:
  "app_sessionId App_init = None \<and>
   App_makeChoice_sync App_init 0 = (App_init, None) \<and>
   App_makeChoice App_init 0 Threw 1 2 = (App_init, None)"
proof -
  have n: "app_sessionId App_init = None"
    by (simp add: App_init_def)
  show ?thesis
    using app_choice_without_session [OF n, of 0 Threw 1 2] n by simp
qed

section \<open>The length and the content of the history\<close>










section \<open>The window on the history\<close>

lemma array_get_append:
  "array_get H a = Some h \<Longrightarrow> array_get (H @ [ys]) a = Some h"
  by (auto simp add: array_get_def nth_append split: if_splits)

lemma array_get_new: "array_get (H @ [ys]) (length H) = Some ys"
  by (simp add: array_get_def)

lemma array_slice_last:
  "array_get H a = Some h \<Longrightarrow> 0 < k \<Longrightarrow>
   array_slice a (- int k) H = Some (length H, H @ [drop (length h - k) h])"
proof -
  assume g: "array_get H a = Some h" and k: "0 < k"
  then have "nat (if - int k < 0 then max (int (length h) + - int k) 0
             else min (- int k) (int (length h))) = length h - k"
    by auto
  with g show ?thesis
    by (simp add: array_slice_def Let_def)
qed

lemma array_reverse_new:
  "array_reverse (length H) (H @ [ys]) = Some (length H, H @ [rev ys])"
  by (simp add: array_reverse_def array_get_new)

lemma rev_drop_last: "rev (drop (length h - k) h) = take (min (length h) k) (rev h)"
proof -
  have "length h - (length h - k) = min (length h) k"
    by arith
  then show ?thesis
    by (simp add: rev_drop)
qed

lemma HistoryPanel_eq:
  assumes "array_get H a = Some h"
  shows "HistoryPanel a H =
           (if h = [] then Some (No_history, H)
            else Some (History_list (rev (drop (length h - 10) h))
                         (if length h > 10 then Some (length h - 10) else None),
                       H @ [rev (drop (length h - 10) h)]))"
proof -
  have s: "array_slice a (- 10) H = Some (length H, H @ [drop (length h - 10) h])"
    using array_slice_last [OF assms, of 10] by simp
  show ?thesis
    using assms
    by (simp add: HistoryPanel_def s array_reverse_new array_get_new array_get_append)
qed

lemma inline_log_eq:
  assumes "array_get H a = Some h"
  shows "inline_log a H =
           (if h = [] then Some (No_history, H)
            else Some (History_list (rev (drop (length h - 5) h)) None,
                       H @ [rev (drop (length h - 5) h)]))"
proof -
  have s: "array_slice a (- 5) H = Some (length H, H @ [drop (length h - 5) h])"
    using array_slice_last [OF assms, of 5] by simp
  show ?thesis
    using assms
    by (simp add: inline_log_def s array_reverse_new array_get_new)
qed

text \<open>
  C7, as the code has it. Both panels show the last min(L, K) entries of a history of
  length L, the most recent first, with K = 10 in HistoryPanel and K = 5 in the inline
  logs; \<open>reverse\<close> works on the copy made by \<open>slice\<close>, so the history array is the same
  afterwards. HistoryPanel gives the number L - 10 of older entries when L is above 10;
  the inline logs give no such number.
\<close>

theorem history_window:
  "array_get H a = Some h \<Longrightarrow>
   (\<exists>v H'. HistoryPanel a H = Some (v, H') \<and>
      array_get H' a = Some h \<and>
      shown v = take (min (length h) 10) (rev h) \<and>
      hidden_count v = (if length h > 10 then Some (length h - 10) else None)) \<and>
   (\<exists>v H'. inline_log a H = Some (v, H') \<and>
      array_get H' a = Some h \<and>
      shown v = take (min (length h) 5) (rev h) \<and>
      hidden_count v = None)"
  by (simp add: HistoryPanel_eq inline_log_eq rev_drop_last array_get_append)

theorem history_window_witness:
  "array_get [[1, 2, 3, 4, 5, 6, 7, 8, 9, 10, 11, 12 :: nat]] 0 =
     Some [1, 2, 3, 4, 5, 6, 7, 8, 9, 10, 11, 12] \<and>
   (\<exists>v H'. HistoryPanel 0 [[1, 2, 3, 4, 5, 6, 7, 8, 9, 10, 11, 12 :: nat]] = Some (v, H') \<and>
      array_get H' 0 = Some [1, 2, 3, 4, 5, 6, 7, 8, 9, 10, 11, 12] \<and>
      shown v = [12, 11, 10, 9, 8, 7, 6, 5, 4, 3] \<and>
      hidden_count v = Some 2)"
proof -
  let ?h = "[1, 2, 3, 4, 5, 6, 7, 8, 9, 10, 11, 12 :: nat]"
  have g: "array_get [?h] 0 = Some ?h"
    by (simp add: array_get_def)
  from history_window [OF g] obtain v H'
    where p: "HistoryPanel 0 [?h] = Some (v, H')"
      and q: "array_get H' 0 = Some ?h"
      and r: "shown v = take (min (length ?h) 10) (rev ?h)"
      and s: "hidden_count v = (if length ?h > 10 then Some (length ?h - 10) else None)"
    by blast
  from r have r': "shown v = [12, 11, 10, 9, 8, 7, 6, 5, 4, 3]"
    by simp
  from s have s': "hidden_count v = Some 2"
    by simp
  from g p q r' s' show ?thesis
    by blast
qed

text \<open>
  The claim as written fails for the window of 5: of six entries the inline log shows
  the last five and gives no number for the one it leaves out.
\<close>

theorem inline_log_counterexample:
  "map_option fst (inline_log 0 [[1, 2, 3, 4, 5, 6 :: nat]]) =
     Some (History_list [6, 5, 4, 3, 2] None)"
  by (simp add: inline_log_eq [where h = "[1, 2, 3, 4, 5, 6]"] array_get_def)

end
